theory Spec2Isabelle
  imports Complex_Main "HOL-Library.Char_ord" "HOL-Library.List_Lexorder" "HOL-Library.Sublist"
begin

section \<open>The examples command: releases\<close>

text \<open>
  \<^verbatim>\<open>idaes/commands/examples.py\<close>. The GitHub API answers the releases request with a
  JSON list of objects; \<open>get_releases\<close> reads the keys \<open>published_at\<close>, \<open>tag_name\<close>,
  \<open>name\<close> and (only when pre-releases are skipped) \<open>prerelease\<close> of each. The name of a
  release is the field \<open>rel_name\<close>, since \<open>name\<close> is taken by other records below.
  Strings are compared as Python compares \<open>str\<close>: lexicographically, character by
  character, a proper prefix being smaller.
\<close>

record release_json =
  published_at :: string
  tag_name :: string
  rel_name :: string
  prerelease :: bool

text \<open>A release as the command passes it on: the tuple (date, tag, info).\<close>

type_synonym release = "string \<times> string \<times> string"

text \<open>The module constant \<^verbatim>\<open>_skip_prereleases = False\<close>.\<close>

definition skip_prereleases :: bool where
  "skip_prereleases = False"

text \<open>
  The loop \<^verbatim>\<open>for rel in req.json()\<close> of \<open>get_releases\<close>: \<open>continue\<close> on a skipped
  pre-release, \<open>releases.append\<close> otherwise.
\<close>

fun collect_releases :: "release_json list \<Rightarrow> release list \<Rightarrow> release list" where
  "collect_releases [] releases = releases"
| "collect_releases (rel # rels) releases =
     (if skip_prereleases \<and> prerelease rel then collect_releases rels releases
      else collect_releases rels (releases @ [(published_at rel, tag_name rel, rel_name rel)]))"

text \<open>
  \<^verbatim>\<open>releases.sort(key=itemgetter(0))\<close>: Python's sort is stable, and so is \<open>sort_key\<close>;
  a stable sort by a key has one result only.
\<close>

definition get_releases :: "release_json list \<Rightarrow> release list" where
  "get_releases json = sort_key fst (collect_releases json [])"

section \<open>The ideal equation of state\<close>

text \<open>
  \<^verbatim>\<open>idaes/generic_models/properties/core/eos/ideal.py\<close>. The methods of class \<open>Ideal\<close>
  take a state block \<open>b\<close>, a phase name \<open>p\<close> and, some of them, a component name \<open>j\<close>,
  and return an expression over the block's variables; the model returns the value
  of that expression as a real number, or the exception the method raises.

  A phase object answers \<open>is_vapor_phase()\<close> and \<open>is_liquid_phase()\<close>; the methods ask
  both questions separately, the vapour one first, and the two answers are independent
  fields here.
\<close>

record phase_obj =
  is_vapor_phase :: bool
  is_liquid_phase :: bool

text \<open>
  What the methods read of the block: \<open>b.name\<close>, \<open>b.params.get_phase(p)\<close>, the state
  variables, the indexed properties stored on the block (\<open>b.dens_mol_phase[p]\<close>,
  \<open>b.enth_mol_phase_comp[p, j]\<close>, ...), and the pure-component methods that
  \<open>get_method(b, name, j)\<close> looks up and the class then calls with
  \<open>(b, cobj(b, j), b.temperature)\<close>. \<open>get_method\<close> and \<open>cobj\<close> are not among the
  sources: the method found for component \<open>j\<close> is a field of the block, a function of
  \<open>j\<close> and of the temperature it is called with.
\<close>

record state_block =
  name :: string
  get_phase :: "string \<Rightarrow> phase_obj"
  pressure :: real
  temperature :: real
  mole_frac_phase_comp :: "string \<Rightarrow> string \<Rightarrow> real"
  components_in_phase :: "string \<Rightarrow> string list"
  mw_phase :: "string \<Rightarrow> real"
  dens_mol_phase :: "string \<Rightarrow> real"
  enth_mol_phase_comp :: "string \<Rightarrow> string \<Rightarrow> real"
  entr_mol_phase_comp :: "string \<Rightarrow> string \<Rightarrow> real"
  gibbs_mol_phase_comp :: "string \<Rightarrow> string \<Rightarrow> real"
  dens_mol_liq_comp :: "string \<Rightarrow> real \<Rightarrow> real"
  enth_mol_ig_comp :: "string \<Rightarrow> real \<Rightarrow> real"
  enth_mol_liq_comp :: "string \<Rightarrow> real \<Rightarrow> real"
  entr_mol_ig_comp :: "string \<Rightarrow> real \<Rightarrow> real"
  entr_mol_liq_comp :: "string \<Rightarrow> real \<Rightarrow> real"
  pressure_sat_comp :: "string \<Rightarrow> real \<Rightarrow> real"

text \<open>The one exception the class raises, with its message.\<close>

datatype eos_error = PropertyNotSupportedError string

definition invalid_phase_msg :: "string \<Rightarrow> string \<Rightarrow> string" where
  "invalid_phase_msg nm phase =
     nm @ '' received unrecognised phase name '' @ phase @
     ''. Ideal property libray only supports Vap and Liq phases.''"

text \<open>Python's \<open>sum\<close> over a generator: start from 0 and add the items from the left.\<close>

definition py_sum :: "real list \<Rightarrow> real" where
  "py_sum xs = foldl (+) 0 xs"

definition Ideal_compress_fact_phase :: "state_block \<Rightarrow> string \<Rightarrow> eos_error + real" where
  "Ideal_compress_fact_phase b p =
     (let pobj = get_phase b p in
      if is_vapor_phase pobj \<or> is_liquid_phase pobj then Inr 1
      else Inl (PropertyNotSupportedError (invalid_phase_msg (name b) p)))"

definition Ideal_dens_mass_phase :: "state_block \<Rightarrow> string \<Rightarrow> eos_error + real" where
  "Ideal_dens_mass_phase b p = Inr (dens_mol_phase b p * mw_phase b p)"

text \<open>
  \<open>gas_constant\<close> is \<^verbatim>\<open>Constants.gas_constant\<close> of \<^verbatim>\<open>idaes.core.util.constants\<close>, which
  is not among the sources: a parameter.
\<close>

definition Ideal_dens_mol_phase :: "real \<Rightarrow> state_block \<Rightarrow> string \<Rightarrow> eos_error + real" where
  "Ideal_dens_mol_phase gas_constant b p =
     (let pobj = get_phase b p in
      if is_vapor_phase pobj then Inr (pressure b / (gas_constant * temperature b))
      else if is_liquid_phase pobj then
        Inr (py_sum (map (\<lambda>j. mole_frac_phase_comp b p j * dens_mol_liq_comp b j (temperature b))
                         (components_in_phase b p)))
      else Inl (PropertyNotSupportedError (invalid_phase_msg (name b) p)))"

definition Ideal_enth_mol_phase :: "state_block \<Rightarrow> string \<Rightarrow> eos_error + real" where
  "Ideal_enth_mol_phase b p =
     Inr (py_sum (map (\<lambda>j. mole_frac_phase_comp b p j * enth_mol_phase_comp b p j)
                      (components_in_phase b p)))"

definition Ideal_enth_mol_phase_comp :: "state_block \<Rightarrow> string \<Rightarrow> string \<Rightarrow> eos_error + real" where
  "Ideal_enth_mol_phase_comp b p j =
     (let pobj = get_phase b p in
      if is_vapor_phase pobj then Inr (enth_mol_ig_comp b j (temperature b))
      else if is_liquid_phase pobj then Inr (enth_mol_liq_comp b j (temperature b))
      else Inl (PropertyNotSupportedError (invalid_phase_msg (name b) p)))"

definition Ideal_entr_mol_phase :: "state_block \<Rightarrow> string \<Rightarrow> eos_error + real" where
  "Ideal_entr_mol_phase b p =
     Inr (py_sum (map (\<lambda>j. mole_frac_phase_comp b p j * entr_mol_phase_comp b p j)
                      (components_in_phase b p)))"

definition Ideal_entr_mol_phase_comp :: "state_block \<Rightarrow> string \<Rightarrow> string \<Rightarrow> eos_error + real" where
  "Ideal_entr_mol_phase_comp b p j =
     (let pobj = get_phase b p in
      if is_vapor_phase pobj then Inr (entr_mol_ig_comp b j (temperature b))
      else if is_liquid_phase pobj then Inr (entr_mol_liq_comp b j (temperature b))
      else Inl (PropertyNotSupportedError (invalid_phase_msg (name b) p)))"

text \<open>The module function \<open>_fug_phase_comp\<close>, which the six fugacity methods call.\<close>

definition fug_phase_comp_impl :: "state_block \<Rightarrow> string \<Rightarrow> string \<Rightarrow> eos_error + real" where
  "fug_phase_comp_impl b p j =
     (let pobj = get_phase b p in
      if is_vapor_phase pobj then Inr (pressure b)
      else if is_liquid_phase pobj then Inr (pressure_sat_comp b j (temperature b))
      else Inl (PropertyNotSupportedError (invalid_phase_msg (name b) p)))"

definition Ideal_fug_phase_comp :: "state_block \<Rightarrow> string \<Rightarrow> string \<Rightarrow> eos_error + real" where
  "Ideal_fug_phase_comp b p j = fug_phase_comp_impl b p j"

definition Ideal_fug_phase_comp_eq ::
  "state_block \<Rightarrow> string \<Rightarrow> string \<Rightarrow> string \<times> string \<Rightarrow> eos_error + real" where
  "Ideal_fug_phase_comp_eq b p j pp = fug_phase_comp_impl b p j"

definition Ideal_fug_coeff_phase_comp :: "state_block \<Rightarrow> string \<Rightarrow> string \<Rightarrow> eos_error + real" where
  "Ideal_fug_coeff_phase_comp b p j =
     (let pobj = get_phase b p in
      if \<not> (is_vapor_phase pobj \<or> is_liquid_phase pobj)
      then Inl (PropertyNotSupportedError (invalid_phase_msg (name b) p))
      else Inr 1)"

definition Ideal_fug_coeff_phase_comp_eq ::
  "state_block \<Rightarrow> string \<Rightarrow> string \<Rightarrow> string \<times> string \<Rightarrow> eos_error + real" where
  "Ideal_fug_coeff_phase_comp_eq b p j pp =
     (let pobj = get_phase b p in
      if \<not> (is_vapor_phase pobj \<or> is_liquid_phase pobj)
      then Inl (PropertyNotSupportedError (invalid_phase_msg (name b) p))
      else Inr 1)"

definition Ideal_fug_phase_comp_Tbub ::
  "state_block \<Rightarrow> string \<Rightarrow> string \<Rightarrow> string \<times> string \<Rightarrow> eos_error + real" where
  "Ideal_fug_phase_comp_Tbub b p j pp = fug_phase_comp_impl b p j"

definition Ideal_fug_phase_comp_Tdew ::
  "state_block \<Rightarrow> string \<Rightarrow> string \<Rightarrow> string \<times> string \<Rightarrow> eos_error + real" where
  "Ideal_fug_phase_comp_Tdew b p j pp = fug_phase_comp_impl b p j"

definition Ideal_fug_phase_comp_Pbub ::
  "state_block \<Rightarrow> string \<Rightarrow> string \<Rightarrow> string \<times> string \<Rightarrow> eos_error + real" where
  "Ideal_fug_phase_comp_Pbub b p j pp = fug_phase_comp_impl b p j"

definition Ideal_fug_phase_comp_Pdew ::
  "state_block \<Rightarrow> string \<Rightarrow> string \<Rightarrow> string \<times> string \<Rightarrow> eos_error + real" where
  "Ideal_fug_phase_comp_Pdew b p j pp = fug_phase_comp_impl b p j"

definition Ideal_gibbs_mol_phase :: "state_block \<Rightarrow> string \<Rightarrow> eos_error + real" where
  "Ideal_gibbs_mol_phase b p =
     Inr (py_sum (map (\<lambda>j. mole_frac_phase_comp b p j * gibbs_mol_phase_comp b p j)
                      (components_in_phase b p)))"

definition Ideal_gibbs_mol_phase_comp :: "state_block \<Rightarrow> string \<Rightarrow> string \<Rightarrow> eos_error + real" where
  "Ideal_gibbs_mol_phase_comp b p j =
     Inr (enth_mol_phase_comp b p j - entr_mol_phase_comp b p j * temperature b)"

text \<open>
  A block to evaluate the methods on: a vapour phase \<open>Vap\<close>, a liquid phase \<open>Liq\<close>, a
  phase \<open>Fluid\<close> whose object answers yes to both questions, and any other name (\<open>Sol\<close>,
  say) a phase that is neither.
\<close>

definition vle_block :: state_block where
  "vle_block =
     \<lparr>name = ''fs.state'',
      get_phase = (\<lambda>p. \<lparr>is_vapor_phase = (p = ''Vap'' \<or> p = ''Fluid''),
                          is_liquid_phase = (p = ''Liq'' \<or> p = ''Fluid'')\<rparr>),
      pressure = 6, temperature = 3,
      mole_frac_phase_comp = (\<lambda>p j. 1 / 2),
      components_in_phase = (\<lambda>p. [''H2'', ''CH4'']),
      mw_phase = (\<lambda>p. 4),
      dens_mol_phase = (\<lambda>p. 5),
      enth_mol_phase_comp = (\<lambda>p j. if j = ''H2'' then 10 else 20),
      entr_mol_phase_comp = (\<lambda>p j. 2),
      gibbs_mol_phase_comp = (\<lambda>p j. if j = ''H2'' then 4 else 14),
      dens_mol_liq_comp = (\<lambda>j T. if j = ''H2'' then 8 else 12),
      enth_mol_ig_comp = (\<lambda>j T. T),
      enth_mol_liq_comp = (\<lambda>j T. 2 * T),
      entr_mol_ig_comp = (\<lambda>j T. T),
      entr_mol_liq_comp = (\<lambda>j T. 3 * T),
      pressure_sat_comp = (\<lambda>j T. 7)\<rparr>"

section \<open>The examples command: files, network, output\<close>

text \<open>
  The rest of \<^verbatim>\<open>idaes/commands/examples.py\<close> works on the file system, the network and
  standard output. A path is the list of its components (\<open>Path.parts\<close>), the empty list
  being the working directory \<open>Path(".")\<close>. The file system is the list of the paths
  that exist, each with what it is; the working directory itself always exists.
\<close>

type_synonym path = "string list"

datatype node = Dir | File string

type_synonym filesystem = "(path \<times> node) list"

definition path_exists :: "filesystem \<Rightarrow> path \<Rightarrow> bool" where
  "path_exists files p = (p = [] \<or> p \<in> set (map fst files))"

definition is_dir :: "filesystem \<Rightarrow> path \<Rightarrow> bool" where
  "is_dir files p = (p = [] \<or> (p, Dir) \<in> set files)"

text \<open>\<open>Path.parent\<close>; the parent of \<open>Path(".")\<close> is \<open>Path(".")\<close>.\<close>

definition parent :: "path \<Rightarrow> path" where
  "parent p = butlast p"

text \<open>
  \<open>str(path)\<close>, as the messages print a path: the components joined by slashes, after
  the root \<open>/\<close> when the path is absolute.
\<close>

fun join_path :: "path \<Rightarrow> string" where
  "join_path [] = []"
| "join_path [c] = c"
| "join_path (c # cs) = c @ ''/'' @ join_path cs"

definition path_str :: "path \<Rightarrow> string" where
  "path_str p =
     (case p of
        [] \<Rightarrow> ''.''
      | c # cs \<Rightarrow> if c = ''/'' then ''/'' @ join_path cs else join_path p)"

text \<open>Creating or overwriting one entry; removing a tree; moving a tree.\<close>

definition fs_put :: "filesystem \<Rightarrow> path \<Rightarrow> node \<Rightarrow> filesystem" where
  "fs_put files p n = filter (\<lambda>(q, _). q \<noteq> p) files @ [(p, n)]"

definition fs_remove_tree :: "filesystem \<Rightarrow> path \<Rightarrow> filesystem" where
  "fs_remove_tree files p = filter (\<lambda>(q, _). \<not> prefix p q) files"

definition fs_move_tree :: "filesystem \<Rightarrow> path \<Rightarrow> path \<Rightarrow> filesystem" where
  "fs_move_tree files src dst =
     map (\<lambda>(q, n). if prefix src q then (dst @ drop (length src) q, n) else (q, n)) files"

text \<open>
  The exceptions that leave the functions of the module. \<open>sys.exit(n)\<close> raises
  \<open>SystemExit(n)\<close>, which no \<open>except\<close> clause of the module catches. \<open>FileNotFoundError\<close> is
  what \<open>shutil.rmtree\<close> and \<open>os.rename\<close> raise for a path that does not exist; \<open>OSError\<close>
  stands for their other failures (a file where a directory is needed, a destination
  that is in the way).
\<close>

datatype exn =
    SystemExit int
  | DownloadError string
  | InstallError string
  | FileNotFoundError
  | OSError
  | BadZipFile

text \<open>
  \<open>shutil.rmtree(path)\<close> with its default \<open>ignore_errors=False\<close>: a path that does not
  exist raises \<open>FileNotFoundError\<close>, a path that is a file \<open>NotADirectoryError\<close>.
\<close>

definition shutil_rmtree :: "filesystem \<Rightarrow> path \<Rightarrow> exn + filesystem" where
  "shutil_rmtree files p =
     (if \<not> path_exists files p then Inl FileNotFoundError
      else if \<not> is_dir files p then Inl OSError
      else Inr (fs_remove_tree files p))"

text \<open>
  \<open>os.rename(src, dst)\<close> on POSIX: the source must exist and so must the directory the
  destination is created in; a destination that exists is replaced when it is an empty
  directory and the source is a directory, or when both are files.
\<close>

definition os_rename :: "filesystem \<Rightarrow> path \<Rightarrow> path \<Rightarrow> exn + filesystem" where
  "os_rename files src dst =
     (if src = [] \<or> \<not> path_exists files src then Inl FileNotFoundError
      else if \<not> path_exists files (parent dst) then Inl FileNotFoundError
      else if \<not> is_dir files (parent dst) \<or> dst = [] \<or> prefix src dst then Inl OSError
      else if path_exists files dst then
        (if is_dir files src \<and> is_dir files dst \<and> \<not> list_ex (\<lambda>(q, _). strict_prefix dst q) files
            \<or> \<not> is_dir files src \<and> \<not> is_dir files dst
         then Inr (fs_move_tree (filter (\<lambda>(q, _). q \<noteq> dst) files) src dst)
         else Inl OSError)
      else Inr (fs_move_tree files src dst))"

text \<open>
  The state the command works on: the file system, the lines written to standard output
  (\<open>click.echo\<close>, \<open>print\<close>), and the steps done so far, in order. The steps are a record kept
  by the model: \<open>FetchReleases\<close> is the request of \<open>get_releases\<close>, \<open>DownloadZip\<close> the
  release archive written to the temporary zip file, \<open>Extract\<close> is \<open>extractall\<close>,
  \<open>Relocate\<close> the \<open>os.rename\<close> of the \<open>REPO_DIR\<close> subdirectory to the target directory, and
  \<open>Install\<close> the entry into \<open>install_src\<close>. Messages of the logger are not output.
\<close>

datatype step = FetchReleases | PrintReleases | DownloadZip | Extract | Relocate | Install

record world =
  disk :: filesystem
  stdout :: "string list"
  steps :: "step list"

text \<open>
  What the command does not decide: the answers of the network, the name of the
  temporary directory, and what is outside the module. \<open>pkg_version\<close> is \<open>PKG_VERSION\<close>,
  built from \<^verbatim>\<open>idaes.ver\<close>; \<open>unzip\<close> gives the members of a zip file, each with its path
  inside the archive, or nothing when the bytes are not a zip file; \<open>setup_install\<close> is
  what \<open>install_src\<close> does to the file system once its guard has passed (the temporary
  \<open>__init__.py\<close> files, the renaming, the \<open>setup\<close> call of setuptools and the cleaning up).
  Requests are taken to be answered: a connection that fails is not modelled.
\<close>

record env =
  releases_json :: "release_json list"
  archive_status :: "string \<Rightarrow> int"
  archive_body :: "string \<Rightarrow> string"
  unzip :: "string \<Rightarrow> (path \<times> node) list option"
  tmp_dir :: path
  pkg_version :: string
  realpath :: "path \<Rightarrow> string"
  setup_install :: "string \<Rightarrow> path \<Rightarrow> filesystem \<Rightarrow> exn + filesystem"

definition GITHUB :: string where "GITHUB = ''https://github.com''"
definition REPO_ORG :: string where "REPO_ORG = ''idaes''"
definition REPO_NAME :: string where "REPO_NAME = ''examples-pse''"
definition REPO_DIR :: string where "REPO_DIR = ''src''"

text \<open>The apostrophe of the messages.\<close>

definition apostrophe :: string where
  "apostrophe = [CHR 0x27]"

text \<open>\<open>str\<close> of an integer, for \<open>f"status={req.status_code}"\<close>.\<close>

fun str_nat :: "nat \<Rightarrow> string" where
  "str_nat n =
     (if n < 10 then [char_of (48 + n)] else str_nat (n div 10) @ [char_of (48 + n mod 10)])"

definition str_int :: "int \<Rightarrow> string" where
  "str_int i = (if i < 0 then ''-'' @ str_nat (nat (- i)) else str_nat (nat i))"

definition archive_file_url :: "string \<Rightarrow> string \<Rightarrow> string \<Rightarrow> string" where
  "archive_file_url version org repo =
     GITHUB @ ''/'' @ org @ ''/'' @ repo @ ''/archive/'' @ version @ ''.zip''"

text \<open>
  \<open>zipf.extractall(path=tmpdir.name)\<close>: every member in turn is written below the
  directory, after the directories above it that are not there yet (\<open>os.makedirs\<close> of
  the member's upper directories). A member replaces what stands at its path; the error
  Python raises for an archive that names one path as a file and as a directory is not
  modelled.
\<close>

definition extract_member :: "filesystem \<Rightarrow> path \<Rightarrow> path \<times> node \<Rightarrow> filesystem" where
  "extract_member files dir member =
     (let upperdirs = butlast (tl (prefixes (fst member)));
          made = fold (\<lambda>d fs'. if path_exists fs' (dir @ d) then fs' else fs_put fs' (dir @ d) Dir)
                   upperdirs files
      in fs_put made (dir @ fst member) (snd member))"

definition extractall :: "filesystem \<Rightarrow> path \<Rightarrow> (path \<times> node) list \<Rightarrow> filesystem" where
  "extractall files dir members = fold (\<lambda>member fs'. extract_member fs' dir member) members files"

text \<open>
  \<open>download_contents\<close>. \<open>del tmpdir\<close> drops the last reference to the
  \<open>TemporaryDirectory\<close>, whose finalizer removes the directory and what is left in it.
\<close>

definition download_contents :: "env \<Rightarrow> world \<Rightarrow> string \<Rightarrow> path \<Rightarrow> (exn + unit) \<times> world" where
  "download_contents e w version target_dir =
     (let url = archive_file_url version REPO_ORG REPO_NAME;
          status_code = archive_status e url in
      if status_code \<noteq> 200 then
        (if status_code = 400 \<or> status_code = 404
         then (Inl (DownloadError ''file not found''), w)
         else (Inl (DownloadError (''status='' @ str_int status_code)), w))
      else
        let tmpdir = tmp_dir e;
            w1 = w\<lparr>disk := fs_put (disk w) tmpdir Dir\<rparr>;
            tmpfile = tmpdir @ [''examples.zip''];
            w2 = w1\<lparr>disk := fs_put (disk w1) tmpfile (File (archive_body e url)),
                    steps := steps w1 @ [DownloadZip]\<rparr>
        in case unzip e (archive_body e url) of
             None \<Rightarrow> (Inl BadZipFile, w2)
           | Some members \<Rightarrow>
               let w3 = w2\<lparr>disk := extractall (disk w2) tmpdir members,
                           steps := steps w2 @ [Extract]\<rparr>;
                   subdir = tmpdir @ [REPO_NAME @ ''-'' @ version, REPO_DIR]
               in case os_rename (disk w3) subdir target_dir of
                    Inl err \<Rightarrow> (Inl err, w3)
                  | Inr moved \<Rightarrow>
                      (Inr (), w3\<lparr>disk := fs_remove_tree moved tmpdir,
                                  steps := steps w3 @ [Relocate]\<rparr>))"

text \<open>
  \<open>download_examples\<close>. The loop finds the first release whose tag is the version; the
  \<open>except\<close> clause catches \<open>DownloadError\<close> only.
\<close>

definition download_examples ::
  "env \<Rightarrow> world \<Rightarrow> release list \<Rightarrow> path \<Rightarrow> string \<Rightarrow> (exn + unit) \<times> world" where
  "download_examples e w releases target_dir version =
     (case find (\<lambda>rel. version = fst (snd rel)) releases of
        None \<Rightarrow>
          (let how = (if version = pkg_version e then ''installed'' else ''selected'');
               how_ver = (if version = pkg_version e
                          then '' and -V/--version to choose a desired version'' else '''')
           in (Inl (SystemExit (- 1)),
               w\<lparr>stdout := stdout w @
                  [''No release found matching '' @ how @ '' IDAES package version '' @
                     apostrophe @ version @ apostrophe @ ''.'',
                   ''Use -l/--list-releases to see all'' @ how_ver @ ''.'']\<rparr>))
      | Some matched_release \<Rightarrow>
          if path_exists (disk w) target_dir then
            (Inl (SystemExit (- 1)),
             w\<lparr>stdout := stdout w @
                [''Cannot download: target directory '' @ apostrophe @ path_str target_dir @
                   apostrophe @ '' already exists.'']\<rparr>)
          else
            (case download_contents e w version target_dir of
               (Inl (DownloadError err), w1) \<Rightarrow>
                 (let w2 = w1\<lparr>stdout := stdout w1 @ [''Download failed: '' @ err]\<rparr>
                  in case shutil_rmtree (disk w2) target_dir of
                       Inl raised \<Rightarrow> (Inl raised, w2)
                     | Inr removed \<Rightarrow> (Inl (SystemExit (- 1)), w2\<lparr>disk := removed\<rparr>))
             | (Inl raised, w1) \<Rightarrow> (Inl raised, w1)
             | (Inr u, w1) \<Rightarrow> (Inr (), w1)))"






text \<open>
  An environment and a start to run the command on: the API lists the releases 1.4.0 and
  1.5.0; the archive of 1.5.0 is there (status 200) and holds a README and, in the directory
  \<open>src\<close>, one script, every other archive is answered with 404; nothing is on disk.
\<close>

definition demo_env :: env where
  "demo_env =
     \<lparr>releases_json =
        [\<lparr>published_at = ''2020-03-01T10:00:00Z'', tag_name = ''1.5.0'', rel_name = ''March'',
           prerelease = False\<rparr>,
         \<lparr>published_at = ''2019-12-01T10:00:00Z'', tag_name = ''1.4.0'', rel_name = ''December'',
           prerelease = False\<rparr>],
      archive_status =
        (\<lambda>url. if url = ''https://github.com/idaes/examples-pse/archive/1.5.0.zip''
               then 200 else 404),
      archive_body = (\<lambda>url. ''PK''),
      unzip =
        (\<lambda>body. Some [([''examples-pse-1.5.0''], Dir),
                      ([''examples-pse-1.5.0'', ''README.md''], File ''Examples''),
                      ([''examples-pse-1.5.0'', ''src'', ''intro.py''], File ''print(1)'')]),
      tmp_dir = [''/'', ''tmp'', ''tmpab12''],
      pkg_version = ''1.5.0'',
      realpath = (\<lambda>p. ''/home/user/'' @ path_str p),
      setup_install = (\<lambda>version target_dir fsys. Inr fsys)\<rparr>"

definition empty_world :: world where
  "empty_world = \<lparr>disk = [], stdout = [], steps = []\<rparr>"

section \<open>The DAE categorizer\<close>

text \<open>
  \<open>categorize_dae_variables_and_constraints\<close> of \<^verbatim>\<open>idaes/apps/caprese/categorize.py\<close> is
  not among the sources; its test file \<^verbatim>\<open>idaes/apps/caprese/tests/test_categorize.py\<close>
  is. The definitions of this section are written from the specification and checked
  against the models and assertions of that test file.

  A variable or a constraint is named by a string and stands for the time-indexed
  component at the representative time point. Of the model the categorizer reads which
  variables are fixed, which constraints are deactivated, the variables each constraint
  depends on, the differential (state) variable of each derivative variable, and the
  discretization equation of each derivative variable, which exists only once the model
  has been discretized.
\<close>

type_synonym var = string
type_synonym con = string

datatype VariableCategory =
  VC_DIFFERENTIAL | VC_DERIVATIVE | VC_ALGEBRAIC | VC_INPUT | VC_DISTURBANCE | VC_FIXED | VC_UNUSED

datatype ConstraintCategory =
  CC_DIFFERENTIAL | CC_DISCRETIZATION | CC_ALGEBRAIC | CC_UNUSED

record dae_model =
  fixed_vars :: "var list"
  deactivated_cons :: "con list"
  con_vars :: "con \<Rightarrow> var list"
  state_var_of :: "var \<Rightarrow> var option"
  disc_eq_of :: "var \<Rightarrow> con option"

datatype categorize_error = TypeError

text \<open>
  Modelled from the spec: the two sets of category labels, "{DIFFERENTIAL, DERIVATIVE,
  ALGEBRAIC, INPUT, DISTURBANCE, FIXED, UNUSED} for variables and {DIFFERENTIAL,
  DISCRETIZATION, ALGEBRAIC, UNUSED} for constraints", the keys of the two partitions.
\<close>

definition variable_categories :: "VariableCategory list" where
  "variable_categories =
     [VC_DIFFERENTIAL, VC_DERIVATIVE, VC_ALGEBRAIC, VC_INPUT, VC_DISTURBANCE, VC_FIXED, VC_UNUSED]"

definition constraint_categories :: "ConstraintCategory list" where
  "constraint_categories = [CC_DIFFERENTIAL, CC_DISCRETIZATION, CC_ALGEBRAIC, CC_UNUSED]"

definition is_fixed :: "dae_model \<Rightarrow> var \<Rightarrow> bool" where
  "is_fixed m x = (x \<in> set (fixed_vars m))"

definition is_active :: "dae_model \<Rightarrow> con \<Rightarrow> bool" where
  "is_active m c = (c \<notin> set (deactivated_cons m))"

text \<open>
  Modelled from the spec: a derivative variable's "discretization equation is
  discoverable" when the model has one for it and it is among the supplied constraints.
\<close>

definition disc_eq_discoverable :: "dae_model \<Rightarrow> con list \<Rightarrow> var \<Rightarrow> bool" where
  "disc_eq_discoverable m dae_cons dv =
     (case disc_eq_of m dv of None \<Rightarrow> False | Some c \<Rightarrow> c \<in> set dae_cons)"

text \<open>
  Modelled from the spec: the category of one variable of
  \<open>categorize_dae_variables_and_constraints\<close>, which is missing from the sources.
  "A derivative variable is categorized DERIVATIVE only if its associated differential
  variable is not fixed and its discretization equation is discoverable; a differential
  variable whose derivative is fixed is reclassified ALGEBRAIC, and vice versa."
  The test file adds: a variable passed in \<open>input_vars\<close> is an INPUT and one passed in
  \<open>disturbance_vars\<close> a DISTURBANCE; the derivative of an input is ALGEBRAIC; and with a
  variable fixed every variable category but ALGEBRAIC and UNUSED is empty, so a fixed
  variable is UNUSED and nothing is put under FIXED.
\<close>

definition var_category ::
  "dae_model \<Rightarrow> var list \<Rightarrow> con list \<Rightarrow> var list \<Rightarrow> var list \<Rightarrow> var \<Rightarrow> VariableCategory" where
  "var_category m dae_vars dae_cons input_vars disturbance_vars x =
     (if x \<in> set input_vars then VC_INPUT
      else if x \<in> set disturbance_vars then VC_DISTURBANCE
      else if is_fixed m x then VC_UNUSED
      else case state_var_of m x of
        Some s \<Rightarrow>
          if \<not> is_fixed m s \<and> s \<notin> set input_vars \<and> disc_eq_discoverable m dae_cons x
          then VC_DERIVATIVE else VC_ALGEBRAIC
      | None \<Rightarrow>
          if list_ex (\<lambda>dv. state_var_of m dv = Some x
                          \<and> dv \<notin> set input_vars \<and> dv \<notin> set disturbance_vars
                          \<and> \<not> is_fixed m dv \<and> disc_eq_discoverable m dae_cons dv) dae_vars
          then VC_DIFFERENTIAL else VC_ALGEBRAIC)"

text \<open>
  Modelled from the spec: the category of one constraint, "based on dependency
  inspection". The specification names the categories only; the rule is read off the
  test file: a deactivated constraint is UNUSED, the discretization equation of a
  variable categorized DERIVATIVE is a DISCRETIZATION equation, another constraint that
  depends on such a variable is DIFFERENTIAL, and the rest is ALGEBRAIC.
\<close>

definition con_category ::
  "dae_model \<Rightarrow> var list \<Rightarrow> con list \<Rightarrow> var list \<Rightarrow> var list \<Rightarrow> con \<Rightarrow> ConstraintCategory" where
  "con_category m dae_vars dae_cons input_vars disturbance_vars c =
     (if \<not> is_active m c then CC_UNUSED
      else if list_ex (\<lambda>dv. disc_eq_of m dv = Some c
                \<and> var_category m dae_vars dae_cons input_vars disturbance_vars dv = VC_DERIVATIVE)
              dae_vars
      then CC_DISCRETIZATION
      else if list_ex (\<lambda>x. x \<in> set dae_vars
                \<and> var_category m dae_vars dae_cons input_vars disturbance_vars x = VC_DERIVATIVE)
              (con_vars m c)
      then CC_DIFFERENTIAL
      else CC_ALGEBRAIC)"

text \<open>
  Modelled from the spec: the partition, a "mapping from category label to an ordered
  sequence" filled by a "single-pass classification". The mapping starts with an empty
  sequence under every label; each component in turn is appended to the sequence of its
  category.
\<close>

fun append_to :: "'c \<Rightarrow> 'a \<Rightarrow> ('c \<times> 'a list) list \<Rightarrow> ('c \<times> 'a list) list" where
  "append_to c x [] = []"
| "append_to c x ((k, xs) # rest) =
     (if k = c then (k, xs @ [x]) # rest else (k, xs) # append_to c x rest)"

definition classify :: "('a \<Rightarrow> 'c) \<Rightarrow> 'c list \<Rightarrow> 'a list \<Rightarrow> ('c \<times> 'a list) list" where
  "classify category labels components =
     fold (\<lambda>x part. append_to (category x) x part) components (map (\<lambda>c. (c, [])) labels)"

text \<open>
  Modelled from the spec: \<open>categorize_dae_variables_and_constraints(model, dae_vars,
  dae_cons, time, input_vars, disturbance_vars)\<close>, which returns the variable partition
  and the constraint partition. From the test file (\<open>test_categorize_deriv\<close>): "If we
  find a derivative var, we will try to access the disc eq", and on a model that has
  none the call raises \<open>TypeError\<close>.
\<close>

definition categorize_dae_variables_and_constraints ::
  "dae_model \<Rightarrow> var list \<Rightarrow> con list \<Rightarrow> var list \<Rightarrow> var list \<Rightarrow>
     categorize_error +
       (VariableCategory \<times> var list) list \<times> (ConstraintCategory \<times> con list) list" where
  "categorize_dae_variables_and_constraints m dae_vars dae_cons input_vars disturbance_vars =
     (if list_ex (\<lambda>x. state_var_of m x \<noteq> None \<and> disc_eq_of m x = None) dae_vars
      then Inl TypeError
      else Inr (classify (var_category m dae_vars dae_cons input_vars disturbance_vars)
                  variable_categories dae_vars,
                classify (con_category m dae_vars dae_cons input_vars disturbance_vars)
                  constraint_categories dae_cons))"

text \<open>
  The model of \<open>test_categorize_deriv\<close> and \<open>test_categorize_deriv_fixed\<close>: a variable
  \<open>v\<close>, its derivative \<open>dv\<close>, the equation \<open>diff_eqn\<close> (\<open>dv[t] == -v[t]**2\<close>) and, after the
  backward finite-difference transformation, the discretization equation \<open>dv_disc_eq\<close>.
\<close>

definition test_model :: dae_model where
  "test_model =
     \<lparr>fixed_vars = [], deactivated_cons = [],
      con_vars = (\<lambda>c. if c = ''diff_eqn'' \<or> c = ''dv_disc_eq'' then [''dv'', ''v''] else []),
      state_var_of = (\<lambda>x. if x = ''dv'' then Some ''v'' else None),
      disc_eq_of = (\<lambda>x. if x = ''dv'' then Some ''dv_disc_eq'' else None)\<rparr>"

section \<open>Releases: the list is sorted by date\<close>

lemma set_collect_releases:
  "set (collect_releases json releases) =
     set releases \<union> (\<lambda>rel. (published_at rel, tag_name rel, rel_name rel)) ` set json"
  by (induction json arbitrary: releases) (auto simp: skip_prereleases_def)

lemma length_collect_releases:
  "length (collect_releases json releases) = length releases + length json"
  by (induction json arbitrary: releases) (auto simp: skip_prereleases_def)

text \<open>
  C9. \<open>get_releases\<close> returns the (published_at, tag_name, name) tuples of the releases
  the API listed, one for each, sorted in ascending order of the date: of any two adjacent
  entries of the result, the date of the first is at most the date of the second.
\<close>

theorem get_releases_sorted_by_date:
  "set (get_releases json) = (\<lambda>rel. (published_at rel, tag_name rel, rel_name rel)) ` set json
   \<and> length (get_releases json) = length json
   \<and> sorted (map fst (get_releases json))
   \<and> (\<forall>i. Suc i < length (get_releases json) \<longrightarrow>
          fst (get_releases json ! i) \<le> fst (get_releases json ! Suc i))"
proof -
  let ?rs = "get_releases json"
  have s: "sorted (map fst ?rs)"
    unfolding get_releases_def by (rule sorted_sort_key)
  have adj: "fst (?rs ! i) \<le> fst (?rs ! Suc i)" if "Suc i < length ?rs" for i
  proof -
    from that have "map fst ?rs ! i \<le> map fst ?rs ! Suc i"
      using s by (simp add: sorted_iff_nth_Suc del: nth_map)
    with that show ?thesis by simp
  qed
  have "set ?rs = (\<lambda>rel. (published_at rel, tag_name rel, rel_name rel)) ` set json"
    by (simp add: get_releases_def set_collect_releases)
  moreover have "length ?rs = length json"
    by (simp add: get_releases_def length_collect_releases)
  ultimately show ?thesis using s adj by blast
qed

theorem get_releases_sorted_by_date_witness:
  "get_releases
     [\<lparr>published_at = ''2020-03-01T10:00:00Z'', tag_name = ''1.5.0'', rel_name = ''March'',
        prerelease = False\<rparr>,
      \<lparr>published_at = ''2019-12-01T10:00:00Z'', tag_name = ''1.4.0'', rel_name = ''December'',
        prerelease = True\<rparr>]
   = [(''2019-12-01T10:00:00Z'', ''1.4.0'', ''December''),
      (''2020-03-01T10:00:00Z'', ''1.5.0'', ''March'')]
   \<and> ''2019-12-01T10:00:00Z'' \<le> ''2020-03-01T10:00:00Z''"
proof -
  let ?json = "[\<lparr>published_at = ''2020-03-01T10:00:00Z'', tag_name = ''1.5.0'',
        rel_name = ''March'', prerelease = False\<rparr>,
      \<lparr>published_at = ''2019-12-01T10:00:00Z'', tag_name = ''1.4.0'', rel_name = ''December'',
        prerelease = True\<rparr>]"
  have e: "get_releases ?json = [(''2019-12-01T10:00:00Z'', ''1.4.0'', ''December''),
      (''2020-03-01T10:00:00Z'', ''1.5.0'', ''March'')]"
    by (simp add: get_releases_def skip_prereleases_def)
  have "Suc 0 < length (get_releases ?json)" by (simp add: e)
  with get_releases_sorted_by_date [of ?json]
  have "fst (get_releases ?json ! 0) \<le> fst (get_releases ?json ! Suc 0)" by blast
  with e show ?thesis by simp
qed

section \<open>The ideal equation of state: dispatch and formulas\<close>

lemma foldl_add_sum_list: "foldl (+) a xs = a + sum_list xs" for a :: real
  by (induction xs arbitrary: a) simp_all

lemma py_sum_sum_list: "py_sum xs = sum_list xs"
  by (simp add: py_sum_def foldl_add_sum_list)

lemmas ideal_dispatch_defs =
  Ideal_compress_fact_phase_def Ideal_dens_mol_phase_def Ideal_enth_mol_phase_comp_def
  Ideal_entr_mol_phase_comp_def Ideal_fug_coeff_phase_comp_def
  Ideal_fug_coeff_phase_comp_eq_def fug_phase_comp_impl_def Ideal_fug_phase_comp_def
  Ideal_fug_phase_comp_eq_def Ideal_fug_phase_comp_Tbub_def Ideal_fug_phase_comp_Tdew_def
  Ideal_fug_phase_comp_Pbub_def Ideal_fug_phase_comp_Pdew_def

lemmas ideal_mixture_defs =
  Ideal_dens_mass_phase_def Ideal_enth_mol_phase_def Ideal_entr_mol_phase_def
  Ideal_gibbs_mol_phase_def Ideal_gibbs_mol_phase_comp_def

text \<open>
  C4. Every phase-property method of \<open>Ideal\<close> returns a value for a phase that is a
  vapour phase or a liquid phase, and \<open>compress_fact_phase\<close>, \<open>fug_coeff_phase_comp\<close> and
  \<open>fug_coeff_phase_comp_eq\<close> return 1 there. For a phase that is neither,
  \<open>compress_fact_phase\<close>, \<open>dens_mol_phase\<close>, \<open>enth_mol_phase_comp\<close>,
  \<open>entr_mol_phase_comp\<close>, \<open>fug_coeff_phase_comp\<close>, \<open>fug_coeff_phase_comp_eq\<close> and the six
  fugacity methods raise \<open>PropertyNotSupportedError\<close> (with the message of
  \<open>_invalid_phase_msg\<close>) and nothing else.
\<close>

theorem ideal_methods_dispatch_on_phase:
  "(is_vapor_phase (get_phase b p) \<or> is_liquid_phase (get_phase b p) \<longrightarrow>
      Ideal_compress_fact_phase b p = Inr 1
    \<and> Ideal_fug_coeff_phase_comp b p j = Inr 1
    \<and> Ideal_fug_coeff_phase_comp_eq b p j pp = Inr 1
    \<and> (\<exists>v. Ideal_dens_mol_phase R b p = Inr v)
    \<and> (\<exists>v. Ideal_dens_mass_phase b p = Inr v)
    \<and> (\<exists>v. Ideal_enth_mol_phase b p = Inr v)
    \<and> (\<exists>v. Ideal_enth_mol_phase_comp b p j = Inr v)
    \<and> (\<exists>v. Ideal_entr_mol_phase b p = Inr v)
    \<and> (\<exists>v. Ideal_entr_mol_phase_comp b p j = Inr v)
    \<and> (\<exists>v. Ideal_gibbs_mol_phase b p = Inr v)
    \<and> (\<exists>v. Ideal_gibbs_mol_phase_comp b p j = Inr v)
    \<and> (\<exists>v. Ideal_fug_phase_comp b p j = Inr v)
    \<and> (\<exists>v. Ideal_fug_phase_comp_eq b p j pp = Inr v)
    \<and> (\<exists>v. Ideal_fug_phase_comp_Tbub b p j pp = Inr v)
    \<and> (\<exists>v. Ideal_fug_phase_comp_Tdew b p j pp = Inr v)
    \<and> (\<exists>v. Ideal_fug_phase_comp_Pbub b p j pp = Inr v)
    \<and> (\<exists>v. Ideal_fug_phase_comp_Pdew b p j pp = Inr v))
   \<and> (\<not> is_vapor_phase (get_phase b p) \<and> \<not> is_liquid_phase (get_phase b p) \<longrightarrow>
      Ideal_compress_fact_phase b p = Inl (PropertyNotSupportedError (invalid_phase_msg (name b) p))
    \<and> Ideal_dens_mol_phase R b p = Inl (PropertyNotSupportedError (invalid_phase_msg (name b) p))
    \<and> Ideal_enth_mol_phase_comp b p j = Inl (PropertyNotSupportedError (invalid_phase_msg (name b) p))
    \<and> Ideal_entr_mol_phase_comp b p j = Inl (PropertyNotSupportedError (invalid_phase_msg (name b) p))
    \<and> Ideal_fug_coeff_phase_comp b p j = Inl (PropertyNotSupportedError (invalid_phase_msg (name b) p))
    \<and> Ideal_fug_coeff_phase_comp_eq b p j pp = Inl (PropertyNotSupportedError (invalid_phase_msg (name b) p))
    \<and> Ideal_fug_phase_comp b p j = Inl (PropertyNotSupportedError (invalid_phase_msg (name b) p))
    \<and> Ideal_fug_phase_comp_eq b p j pp = Inl (PropertyNotSupportedError (invalid_phase_msg (name b) p))
    \<and> Ideal_fug_phase_comp_Tbub b p j pp = Inl (PropertyNotSupportedError (invalid_phase_msg (name b) p))
    \<and> Ideal_fug_phase_comp_Tdew b p j pp = Inl (PropertyNotSupportedError (invalid_phase_msg (name b) p))
    \<and> Ideal_fug_phase_comp_Pbub b p j pp = Inl (PropertyNotSupportedError (invalid_phase_msg (name b) p))
    \<and> Ideal_fug_phase_comp_Pdew b p j pp = Inl (PropertyNotSupportedError (invalid_phase_msg (name b) p)))"
proof (intro conjI impI)
  assume "is_vapor_phase (get_phase b p) \<or> is_liquid_phase (get_phase b p)"
  then show "Ideal_compress_fact_phase b p = Inr 1"
    and "Ideal_fug_coeff_phase_comp b p j = Inr 1"
    and "Ideal_fug_coeff_phase_comp_eq b p j pp = Inr 1"
    and "\<exists>v. Ideal_dens_mol_phase R b p = Inr v"
    and "\<exists>v. Ideal_enth_mol_phase_comp b p j = Inr v"
    and "\<exists>v. Ideal_entr_mol_phase_comp b p j = Inr v"
    and "\<exists>v. Ideal_fug_phase_comp b p j = Inr v"
    and "\<exists>v. Ideal_fug_phase_comp_eq b p j pp = Inr v"
    and "\<exists>v. Ideal_fug_phase_comp_Tbub b p j pp = Inr v"
    and "\<exists>v. Ideal_fug_phase_comp_Tdew b p j pp = Inr v"
    and "\<exists>v. Ideal_fug_phase_comp_Pbub b p j pp = Inr v"
    and "\<exists>v. Ideal_fug_phase_comp_Pdew b p j pp = Inr v"
    by (auto simp: ideal_dispatch_defs Let_def)
  show "\<exists>v. Ideal_dens_mass_phase b p = Inr v"
    and "\<exists>v. Ideal_enth_mol_phase b p = Inr v"
    and "\<exists>v. Ideal_entr_mol_phase b p = Inr v"
    and "\<exists>v. Ideal_gibbs_mol_phase b p = Inr v"
    and "\<exists>v. Ideal_gibbs_mol_phase_comp b p j = Inr v"
    by (simp_all add: ideal_mixture_defs)
next
  assume "\<not> is_vapor_phase (get_phase b p) \<and> \<not> is_liquid_phase (get_phase b p)"
  then show
    "Ideal_compress_fact_phase b p = Inl (PropertyNotSupportedError (invalid_phase_msg (name b) p))"
    and "Ideal_dens_mol_phase R b p = Inl (PropertyNotSupportedError (invalid_phase_msg (name b) p))"
    and "Ideal_enth_mol_phase_comp b p j = Inl (PropertyNotSupportedError (invalid_phase_msg (name b) p))"
    and "Ideal_entr_mol_phase_comp b p j = Inl (PropertyNotSupportedError (invalid_phase_msg (name b) p))"
    and "Ideal_fug_coeff_phase_comp b p j = Inl (PropertyNotSupportedError (invalid_phase_msg (name b) p))"
    and "Ideal_fug_coeff_phase_comp_eq b p j pp = Inl (PropertyNotSupportedError (invalid_phase_msg (name b) p))"
    and "Ideal_fug_phase_comp b p j = Inl (PropertyNotSupportedError (invalid_phase_msg (name b) p))"
    and "Ideal_fug_phase_comp_eq b p j pp = Inl (PropertyNotSupportedError (invalid_phase_msg (name b) p))"
    and "Ideal_fug_phase_comp_Tbub b p j pp = Inl (PropertyNotSupportedError (invalid_phase_msg (name b) p))"
    and "Ideal_fug_phase_comp_Tdew b p j pp = Inl (PropertyNotSupportedError (invalid_phase_msg (name b) p))"
    and "Ideal_fug_phase_comp_Pbub b p j pp = Inl (PropertyNotSupportedError (invalid_phase_msg (name b) p))"
    and "Ideal_fug_phase_comp_Pdew b p j pp = Inl (PropertyNotSupportedError (invalid_phase_msg (name b) p))"
    by (simp_all add: ideal_dispatch_defs Let_def)
qed

theorem ideal_methods_dispatch_on_phase_witness:
  "Ideal_compress_fact_phase vle_block ''Vap'' = Inr 1
   \<and> Ideal_fug_coeff_phase_comp vle_block ''Liq'' ''H2'' = Inr 1
   \<and> Ideal_fug_coeff_phase_comp_eq vle_block ''Liq'' ''H2'' (''Vap'', ''Liq'') = Inr 1
   \<and> Ideal_dens_mol_phase 2 vle_block ''Sol'' = Inl (PropertyNotSupportedError
        ''fs.state received unrecognised phase name Sol. Ideal property libray only supports Vap and Liq phases.'')
   \<and> Ideal_fug_phase_comp vle_block ''Sol'' ''H2'' = Inl (PropertyNotSupportedError
        ''fs.state received unrecognised phase name Sol. Ideal property libray only supports Vap and Liq phases.'')"
proof -
  have v: "is_vapor_phase (get_phase vle_block ''Vap'') \<or> is_liquid_phase (get_phase vle_block ''Vap'')"
    by (simp add: vle_block_def)
  have l: "is_vapor_phase (get_phase vle_block ''Liq'') \<or> is_liquid_phase (get_phase vle_block ''Liq'')"
    by (simp add: vle_block_def)
  have s: "\<not> is_vapor_phase (get_phase vle_block ''Sol'') \<and> \<not> is_liquid_phase (get_phase vle_block ''Sol'')"
    by (simp add: vle_block_def)
  have m: "invalid_phase_msg (name vle_block) ''Sol'' =
     ''fs.state received unrecognised phase name Sol. Ideal property libray only supports Vap and Liq phases.''"
    by (simp add: invalid_phase_msg_def vle_block_def)
  from ideal_methods_dispatch_on_phase [of vle_block "''Vap''" "''H2''" "(''Vap'', ''Liq'')" 2] v
  have 1: "Ideal_compress_fact_phase vle_block ''Vap'' = Inr 1" by blast
  from ideal_methods_dispatch_on_phase [of vle_block "''Liq''" "''H2''" "(''Vap'', ''Liq'')" 2] l
  have 2: "Ideal_fug_coeff_phase_comp vle_block ''Liq'' ''H2'' = Inr 1"
    and 3: "Ideal_fug_coeff_phase_comp_eq vle_block ''Liq'' ''H2'' (''Vap'', ''Liq'') = Inr 1"
    by blast+
  from ideal_methods_dispatch_on_phase [of vle_block "''Sol''" "''H2''" "(''Vap'', ''Liq'')" 2] s
  have 4: "Ideal_dens_mol_phase 2 vle_block ''Sol'' =
        Inl (PropertyNotSupportedError (invalid_phase_msg (name vle_block) ''Sol''))"
    and 5: "Ideal_fug_phase_comp vle_block ''Sol'' ''H2'' =
        Inl (PropertyNotSupportedError (invalid_phase_msg (name vle_block) ''Sol''))"
    by blast+
  from 1 2 3 4 5 show ?thesis unfolding m by blast
qed

text \<open>
  C5, as the code has it. For a vapour phase \<open>dens_mol_phase\<close> returns the pressure
  divided by (gas constant times temperature). For a liquid phase that is not also a
  vapour phase it returns the sum, over the components in the phase, of the component's
  mole fraction times its liquid molar density at the block's temperature; the vapour
  question is asked first, so a phase whose object answers yes to both gets the vapour
  formula. \<open>dens_mass_phase\<close> returns the phase's molar density times its molecular
  weight.
\<close>

theorem ideal_dens_mol_phase_formulas:
  "(is_vapor_phase (get_phase b p) \<longrightarrow>
      Ideal_dens_mol_phase R b p = Inr (pressure b / (R * temperature b)))
   \<and> (is_liquid_phase (get_phase b p) \<and> \<not> is_vapor_phase (get_phase b p) \<longrightarrow>
      Ideal_dens_mol_phase R b p =
        Inr (\<Sum>j\<leftarrow>components_in_phase b p.
               mole_frac_phase_comp b p j * dens_mol_liq_comp b j (temperature b)))
   \<and> Ideal_dens_mass_phase b p = Inr (dens_mol_phase b p * mw_phase b p)"
  by (simp add: Ideal_dens_mol_phase_def Ideal_dens_mass_phase_def Let_def py_sum_sum_list)

theorem ideal_dens_mol_phase_formulas_witness:
  "Ideal_dens_mol_phase 2 vle_block ''Vap'' = Inr 1
   \<and> Ideal_dens_mol_phase 2 vle_block ''Liq'' = Inr 10
   \<and> Ideal_dens_mass_phase vle_block ''Liq'' = Inr 20"
proof -
  have v: "is_vapor_phase (get_phase vle_block ''Vap'')"
    by (simp add: vle_block_def)
  have l: "is_liquid_phase (get_phase vle_block ''Liq'') \<and> \<not> is_vapor_phase (get_phase vle_block ''Liq'')"
    by (simp add: vle_block_def)
  from ideal_dens_mol_phase_formulas [of vle_block "''Vap''" 2] v
  have "Ideal_dens_mol_phase 2 vle_block ''Vap'' =
          Inr (pressure vle_block / (2 * temperature vle_block))" by blast
  then have 1: "Ideal_dens_mol_phase 2 vle_block ''Vap'' = Inr 1"
    by (simp add: vle_block_def)
  from ideal_dens_mol_phase_formulas [of vle_block "''Liq''" 2] l
  have "Ideal_dens_mol_phase 2 vle_block ''Liq'' =
        Inr (\<Sum>j\<leftarrow>components_in_phase vle_block ''Liq''.
               mole_frac_phase_comp vle_block ''Liq'' j
               * dens_mol_liq_comp vle_block j (temperature vle_block))"
    and "Ideal_dens_mass_phase vle_block ''Liq'' =
        Inr (dens_mol_phase vle_block ''Liq'' * mw_phase vle_block ''Liq'')"
    by blast+
  then have "Ideal_dens_mol_phase 2 vle_block ''Liq'' = Inr 10"
    and "Ideal_dens_mass_phase vle_block ''Liq'' = Inr 20"
    by (simp_all add: vle_block_def)
  with 1 show ?thesis by blast
qed

text \<open>
  C5 as stated fails: the phase \<open>Fluid\<close> of \<open>vle_block\<close> is a liquid phase (its object
  answers \<open>is_liquid_phase()\<close> with yes), and \<open>dens_mol_phase\<close> returns the ideal-gas value
  6 / (2 * 3) = 1 for it, not the liquid sum 8 / 2 + 12 / 2 = 10.
\<close>

theorem ideal_dens_mol_phase_liquid_counterexample:
  "is_liquid_phase (get_phase vle_block ''Fluid'')
   \<and> Ideal_dens_mol_phase 2 vle_block ''Fluid'' = Inr 1
   \<and> (\<Sum>j\<leftarrow>components_in_phase vle_block ''Fluid''.
         mole_frac_phase_comp vle_block ''Fluid'' j
         * dens_mol_liq_comp vle_block j (temperature vle_block)) = 10
   \<and> Ideal_dens_mol_phase 2 vle_block ''Fluid'' \<noteq>
       Inr (\<Sum>j\<leftarrow>components_in_phase vle_block ''Fluid''.
              mole_frac_phase_comp vle_block ''Fluid'' j
              * dens_mol_liq_comp vle_block j (temperature vle_block))"
  by (simp add: Ideal_dens_mol_phase_def vle_block_def)

text \<open>
  C6. For every phase \<open>p\<close> and component \<open>j\<close>, \<open>gibbs_mol_phase_comp\<close> is
  \<open>enth_mol_phase_comp[p, j]\<close> minus \<open>entr_mol_phase_comp[p, j]\<close> times the temperature,
  and each of \<open>enth_mol_phase\<close>, \<open>entr_mol_phase\<close> and \<open>gibbs_mol_phase\<close> is the sum, over
  the components in the phase, of the mole fraction times the per-component property.
\<close>

theorem ideal_gibbs_and_mixture_sums:
  "Ideal_gibbs_mol_phase_comp b p j =
     Inr (enth_mol_phase_comp b p j - entr_mol_phase_comp b p j * temperature b)
   \<and> Ideal_enth_mol_phase b p =
     Inr (\<Sum>j\<leftarrow>components_in_phase b p. mole_frac_phase_comp b p j * enth_mol_phase_comp b p j)
   \<and> Ideal_entr_mol_phase b p =
     Inr (\<Sum>j\<leftarrow>components_in_phase b p. mole_frac_phase_comp b p j * entr_mol_phase_comp b p j)
   \<and> Ideal_gibbs_mol_phase b p =
     Inr (\<Sum>j\<leftarrow>components_in_phase b p. mole_frac_phase_comp b p j * gibbs_mol_phase_comp b p j)"
  by (simp add: ideal_mixture_defs py_sum_sum_list)

section \<open>The examples command: what a download does\<close>

lemma find_matching_release:
  fixes releases :: "release list"
  shows "\<exists>rel \<in> set releases. fst (snd rel) = version \<Longrightarrow>
    \<exists>rel. find (\<lambda>rel. version = fst (snd rel)) releases = Some rel"
  by (induction releases) auto

lemma download_contents_refused:
  assumes "archive_status e (archive_file_url version REPO_ORG REPO_NAME) \<noteq> 200"
  shows "\<exists>msg. download_contents e w version target_dir = (Inl (DownloadError msg), w)"
  using assms by (simp add: download_contents_def Let_def)

lemma download_contents_accepted:
  assumes "archive_status e (archive_file_url version REPO_ORG REPO_NAME) = 200"
  shows "fst (download_contents e w version target_dir) \<noteq> Inl (DownloadError msg)"
  using assms
  by (auto simp: download_contents_def Let_def os_rename_def split: option.splits sum.splits)

lemma download_contents_DownloadError_iff:
  "(\<exists>msg. fst (download_contents e w version target_dir) = Inl (DownloadError msg)) \<longleftrightarrow>
     archive_status e (archive_file_url version REPO_ORG REPO_NAME) \<noteq> 200"
proof (cases "archive_status e (archive_file_url version REPO_ORG REPO_NAME) = 200")
  case True
  then show ?thesis using download_contents_accepted [of e version w target_dir] by simp
next
  case False
  from download_contents_refused [OF this, of w target_dir] show ?thesis using False by auto
qed


lemma download_contents_stdout:
  "stdout (snd (download_contents e w version target_dir)) = stdout w"
  by (simp add: download_contents_def Let_def split: option.splits sum.splits)



text \<open>
  C10. When a release matches the version and the target directory already exists,
  \<open>download_examples\<close> reports the error and exits with \<open>sys.exit(-1)\<close>; it has downloaded
  nothing (no step was done) and the file system, the existing directory and its
  contents with it, is as it was.
\<close>

theorem download_examples_existing_target:
  assumes "\<exists>rel \<in> set releases. fst (snd rel) = version"
    and "path_exists (disk w) target_dir"
  shows "download_examples e w releases target_dir version =
           (Inl (SystemExit (- 1)),
            w\<lparr>stdout := stdout w @
               [''Cannot download: target directory '' @ apostrophe @ path_str target_dir @
                  apostrophe @ '' already exists.'']\<rparr>)
         \<and> disk (snd (download_examples e w releases target_dir version)) = disk w
         \<and> steps (snd (download_examples e w releases target_dir version)) = steps w"
proof -
  from find_matching_release [OF assms(1)]
  obtain rel where "find (\<lambda>rel. version = fst (snd rel)) releases = Some rel"
    by blast
  with assms(2) show ?thesis by (simp add: download_examples_def)
qed

theorem download_examples_existing_target_witness:
  "download_examples demo_env \<lparr>disk = [([''examples''], Dir), ([''examples'', ''mine.py''], File ''x = 1'')],
        stdout = [], steps = []\<rparr>
      (get_releases (releases_json demo_env)) [''examples''] ''1.5.0''
   = (Inl (SystemExit (- 1)),
      \<lparr>disk = [([''examples''], Dir), ([''examples'', ''mine.py''], File ''x = 1'')],
       stdout = [''Cannot download: target directory '' @ apostrophe @ ''examples'' @ apostrophe @
                   '' already exists.''],
       steps = []\<rparr>)"
proof -
  let ?w = "\<lparr>disk = [([''examples''], Dir), ([''examples'', ''mine.py''], File ''x = 1'')],
        stdout = [], steps = []\<rparr>"
  have m: "\<exists>rel \<in> set (get_releases (releases_json demo_env)). fst (snd rel) = ''1.5.0''"
    by (simp add: get_releases_def demo_env_def skip_prereleases_def)
  have x: "path_exists (disk ?w) [''examples'']"
    by (simp add: path_exists_def)
  from download_examples_existing_target [OF m x, of demo_env] show ?thesis
    by (simp add: path_str_def)
qed




subsection \<open>What extraction and relocation put on disk\<close>






















subsection \<open>A download that fails\<close>

text \<open>
  C8. When \<open>download_contents\<close> raises a \<open>DownloadError\<close> inside \<open>download_examples\<close> (a
  release matches and the target directory does not exist, or \<open>download_contents\<close> would
  not have been called), the request was answered with a status other than 200 and
  nothing has been written. The \<open>except\<close> clause echoes the failure and calls
  \<open>shutil.rmtree(target_dir)\<close> on a directory that was never created: \<open>FileNotFoundError\<close>
  is raised there, nothing is removed, and \<open>sys.exit(-1)\<close> is not reached. The file
  system is what it was before the call.
\<close>

theorem download_error_cleanup_raises:
  assumes "\<exists>rel \<in> set releases. fst (snd rel) = version"
    and "\<not> path_exists (disk w) target_dir"
    and "fst (download_contents e w version target_dir) = Inl (DownloadError msg)"
  shows "archive_status e (archive_file_url version REPO_ORG REPO_NAME) \<noteq> 200
    \<and> download_contents e w version target_dir = (Inl (DownloadError msg), w)
    \<and> shutil_rmtree (disk w) target_dir = Inl FileNotFoundError
    \<and> download_examples e w releases target_dir version
        = (Inl FileNotFoundError, w\<lparr>stdout := stdout w @ [''Download failed: '' @ msg]\<rparr>)
    \<and> fst (download_examples e w releases target_dir version) \<noteq> Inl (SystemExit (- 1))
    \<and> disk (snd (download_examples e w releases target_dir version)) = disk w"
proof -
  from find_matching_release [OF assms(1)]
  obtain rel where f: "find (\<lambda>rel. version = fst (snd rel)) releases = Some rel"
    by blast
  have st: "archive_status e (archive_file_url version REPO_ORG REPO_NAME) \<noteq> 200"
    using assms(3) download_contents_DownloadError_iff [of e w version target_dir] by auto
  from download_contents_refused [OF this, of w target_dir] assms(3)
  have dc: "download_contents e w version target_dir = (Inl (DownloadError msg), w)"
    by auto
  from assms(2) have rm: "shutil_rmtree (disk w) target_dir = Inl FileNotFoundError"
    by (simp add: shutil_rmtree_def)
  from f assms(2) dc have de: "download_examples e w releases target_dir version
        = (Inl FileNotFoundError, w\<lparr>stdout := stdout w @ [''Download failed: '' @ msg]\<rparr>)"
    by (simp add: download_examples_def Let_def shutil_rmtree_def)
  from st dc rm de show ?thesis by simp
qed

theorem download_error_cleanup_raises_witness:
  "download_contents demo_env empty_world ''1.4.0'' [''examples'']
     = (Inl (DownloadError ''file not found''), empty_world)
   \<and> shutil_rmtree (disk empty_world) [''examples''] = Inl FileNotFoundError
   \<and> download_examples demo_env empty_world (get_releases (releases_json demo_env))
       [''examples''] ''1.4.0''
     = (Inl FileNotFoundError,
        \<lparr>disk = [], stdout = [''Download failed: file not found''], steps = []\<rparr>)"
proof -
  have m: "\<exists>rel \<in> set (get_releases (releases_json demo_env)). fst (snd rel) = ''1.4.0''"
    by (simp add: get_releases_def demo_env_def skip_prereleases_def)
  have x: "\<not> path_exists (disk empty_world) [''examples'']"
    by (simp add: path_exists_def empty_world_def)
  have r: "fst (download_contents demo_env empty_world ''1.4.0'' [''examples''])
             = Inl (DownloadError ''file not found'')"
    by (simp add: download_contents_def demo_env_def archive_file_url_def GITHUB_def REPO_ORG_def
          REPO_NAME_def Let_def)
  from download_error_cleanup_raises [OF m x r] show ?thesis
    by (simp add: empty_world_def)
qed

section \<open>The examples command: the order of its steps\<close>













section \<open>The DAE categorizer: the partition\<close>

lemma append_to_labelled:
  assumes "distinct labels"
  shows "append_to c x (map (\<lambda>k. (k, g k)) labels) =
           map (\<lambda>k. (k, if k = c then g k @ [x] else g k)) labels"
  using assms
proof (induction labels)
  case Nil
  then show ?case by simp
next
  case (Cons k ks)
  then have "c \<notin> set ks" if "k = c"
    using that by simp
  then have "map (\<lambda>k. (k, g k)) ks = map (\<lambda>k. (k, if k = c then g k @ [x] else g k)) ks"
    if "k = c"
    using that by (intro map_cong) auto
  with Cons show ?case by simp
qed

lemma fold_append_to_labelled:
  assumes "distinct labels"
  shows "fold (\<lambda>x part. append_to (category x) x part) components (map (\<lambda>k. (k, g k)) labels) =
           map (\<lambda>k. (k, g k @ filter (\<lambda>x. category x = k) components)) labels"
proof (induction components arbitrary: g)
  case Nil
  then show ?case by simp
next
  case (Cons x xs)
  have "fold (\<lambda>x part. append_to (category x) x part) (x # xs) (map (\<lambda>k. (k, g k)) labels) =
        fold (\<lambda>x part. append_to (category x) x part) xs
          (map (\<lambda>k. (k, if k = category x then g k @ [x] else g k)) labels)"
    by (simp add: append_to_labelled [OF assms])
  also have "\<dots> = map (\<lambda>k. (k, (if k = category x then g k @ [x] else g k)
                              @ filter (\<lambda>x. category x = k) xs)) labels"
    by (rule Cons.IH)
  also have "\<dots> = map (\<lambda>k. (k, g k @ filter (\<lambda>x. category x = k) (x # xs))) labels"
    by (intro map_cong) auto
  finally show ?case .
qed

lemma classify_filter:
  assumes "distinct labels"
  shows "classify category labels components =
           map (\<lambda>k. (k, filter (\<lambda>x. category x = k) components)) labels"
  using fold_append_to_labelled [OF assms, of category components "\<lambda>k. []"]
  by (simp add: classify_def)

lemma map_of_labelled:
  "map_of (map (\<lambda>k. (k, f k)) labels) c = (if c \<in> set labels then Some (f c) else None)"
  by (induction labels) auto

lemma distinct_variable_categories: "distinct variable_categories"
  by (simp add: variable_categories_def)

lemma distinct_constraint_categories: "distinct constraint_categories"
  by (simp add: constraint_categories_def)

lemma set_variable_categories: "set variable_categories = UNIV"
proof -
  have "c \<in> set variable_categories" for c
    by (cases c) (simp_all add: variable_categories_def)
  then show ?thesis by blast
qed

lemma set_constraint_categories: "set constraint_categories = UNIV"
proof -
  have "c \<in> set constraint_categories" for c
    by (cases c) (simp_all add: constraint_categories_def)
  then show ?thesis by blast
qed

lemma categorize_Inr:
  assumes "categorize_dae_variables_and_constraints m dae_vars dae_cons input_vars disturbance_vars
             = Inr (var_partition, con_partition)"
  shows "var_partition =
           map (\<lambda>k. (k, filter (\<lambda>x. var_category m dae_vars dae_cons input_vars disturbance_vars x = k)
                           dae_vars)) variable_categories"
    and "con_partition =
           map (\<lambda>k. (k, filter (\<lambda>c. con_category m dae_vars dae_cons input_vars disturbance_vars c = k)
                           dae_cons)) constraint_categories"
  using assms
  by (simp_all add: categorize_dae_variables_and_constraints_def
        classify_filter [OF distinct_variable_categories]
        classify_filter [OF distinct_constraint_categories] split: if_splits)

lemma var_partition_lookup:
  assumes "categorize_dae_variables_and_constraints m dae_vars dae_cons input_vars disturbance_vars
             = Inr (var_partition, con_partition)"
  shows "map_of var_partition k =
           Some (filter (\<lambda>x. var_category m dae_vars dae_cons input_vars disturbance_vars x = k)
                   dae_vars)"
  by (simp add: categorize_Inr(1) [OF assms] map_of_labelled set_variable_categories)

text \<open>
  C1. When the categorizer accepts its arguments, the variable partition is keyed by the
  seven variable categories and the constraint partition by the four constraint
  categories, and every supplied variable is in the sequence of exactly one variable
  category: the sequences of two different categories share no variable, and together
  they hold the supplied variables and nothing else.
\<close>

theorem categorize_partition_is_disjoint_cover:
  assumes "categorize_dae_variables_and_constraints m dae_vars dae_cons input_vars disturbance_vars
             = Inr (var_partition, con_partition)"
  shows "map fst var_partition =
           [VC_DIFFERENTIAL, VC_DERIVATIVE, VC_ALGEBRAIC, VC_INPUT, VC_DISTURBANCE, VC_FIXED,
            VC_UNUSED]
         \<and> map fst con_partition = [CC_DIFFERENTIAL, CC_DISCRETIZATION, CC_ALGEBRAIC, CC_UNUSED]
         \<and> (\<forall>x \<in> set dae_vars. \<exists>!k. \<exists>xs. map_of var_partition k = Some xs \<and> x \<in> set xs)
         \<and> (\<forall>k k' xs xs'. map_of var_partition k = Some xs \<and> map_of var_partition k' = Some xs'
               \<and> k \<noteq> k' \<longrightarrow> set xs \<inter> set xs' = {})
         \<and> (\<Union>(k, xs) \<in> set var_partition. set xs) = set dae_vars"
proof -
  let ?cat = "var_category m dae_vars dae_cons input_vars disturbance_vars"
  note look = var_partition_lookup [OF assms]
  have keys: "map fst var_partition =
           [VC_DIFFERENTIAL, VC_DERIVATIVE, VC_ALGEBRAIC, VC_INPUT, VC_DISTURBANCE, VC_FIXED,
            VC_UNUSED]"
    by (simp add: categorize_Inr(1) [OF assms] variable_categories_def)
  have ckeys: "map fst con_partition = [CC_DIFFERENTIAL, CC_DISCRETIZATION, CC_ALGEBRAIC, CC_UNUSED]"
    by (simp add: categorize_Inr(2) [OF assms] constraint_categories_def)
  have one: "\<exists>!k. \<exists>xs. map_of var_partition k = Some xs \<and> x \<in> set xs" if "x \<in> set dae_vars" for x
  proof (rule ex1I [of _ "?cat x"])
    show "\<exists>xs. map_of var_partition (?cat x) = Some xs \<and> x \<in> set xs"
      using that by (simp add: look)
  next
    fix k
    assume "\<exists>xs. map_of var_partition k = Some xs \<and> x \<in> set xs"
    then show "k = ?cat x" by (auto simp: look)
  qed
  have disj: "set xs \<inter> set xs' = {}"
    if "map_of var_partition k = Some xs \<and> map_of var_partition k' = Some xs' \<and> k \<noteq> k'"
    for k k' xs xs'
    using that by (auto simp: look)
  have vp: "var_partition = map (\<lambda>k. (k, filter (\<lambda>x. ?cat x = k) dae_vars)) variable_categories"
    by (rule categorize_Inr(1) [OF assms])
  have cover: "(\<Union>(k, xs) \<in> set var_partition. set xs) = set dae_vars"
  proof
    show "(\<Union>(k, xs) \<in> set var_partition. set xs) \<subseteq> set dae_vars"
    proof
      fix x
      assume "x \<in> (\<Union>(k, xs) \<in> set var_partition. set xs)"
      then obtain k xs where "(k, xs) \<in> set var_partition" and x: "x \<in> set xs"
        by blast
      then have "xs = filter (\<lambda>x. ?cat x = k) dae_vars"
        unfolding vp by (simp add: image_iff)
      with x show "x \<in> set dae_vars" by simp
    qed
  next
    show "set dae_vars \<subseteq> (\<Union>(k, xs) \<in> set var_partition. set xs)"
    proof
      fix x
      assume x: "x \<in> set dae_vars"
      have "(?cat x, filter (\<lambda>y. ?cat y = ?cat x) dae_vars) \<in> set var_partition"
        unfolding vp by (simp add: set_variable_categories image_iff)
      moreover have "x \<in> set (filter (\<lambda>y. ?cat y = ?cat x) dae_vars)"
        using x by simp
      ultimately show "x \<in> (\<Union>(k, xs) \<in> set var_partition. set xs)"
        by blast
    qed
  qed
  show ?thesis
  proof (intro conjI)
    show "\<forall>x \<in> set dae_vars. \<exists>!k. \<exists>xs. map_of var_partition k = Some xs \<and> x \<in> set xs"
      using one by blast
    show "\<forall>k k' xs xs'. map_of var_partition k = Some xs \<and> map_of var_partition k' = Some xs'
               \<and> k \<noteq> k' \<longrightarrow> set xs \<inter> set xs' = {}"
      using disj by blast
  qed (rule keys ckeys cover)+
qed
lemmas categorize_run_defs =
  categorize_dae_variables_and_constraints_def classify_def var_category_def con_category_def
  variable_categories_def constraint_categories_def is_fixed_def is_active_def
  disc_eq_discoverable_def test_model_def

text \<open>
  The model against its test file. \<open>test_categorize_deriv\<close>: before the model is
  discretized the call raises \<open>TypeError\<close>; after it, \<open>v\<close> is the one DIFFERENTIAL and \<open>dv\<close>
  the one DERIVATIVE variable, \<open>diff_eqn\<close> the one DIFFERENTIAL and \<open>dv_disc_eq\<close> the one
  DISCRETIZATION constraint, and every other category is empty.
\<close>

lemma test_categorize_deriv_undiscretized:
  "categorize_dae_variables_and_constraints (test_model\<lparr>disc_eq_of := (\<lambda>x. None)\<rparr>)
     [''v'', ''dv''] [''diff_eqn''] [] [] = Inl TypeError"
  by (simp add: categorize_run_defs)

lemma test_categorize_deriv:
  "categorize_dae_variables_and_constraints test_model
     [''v'', ''dv''] [''diff_eqn'', ''dv_disc_eq''] [] []
   = Inr ([(VC_DIFFERENTIAL, [''v'']), (VC_DERIVATIVE, [''dv'']), (VC_ALGEBRAIC, []),
           (VC_INPUT, []), (VC_DISTURBANCE, []), (VC_FIXED, []), (VC_UNUSED, [])],
          [(CC_DIFFERENTIAL, [''diff_eqn'']), (CC_DISCRETIZATION, [''dv_disc_eq'']),
           (CC_ALGEBRAIC, []), (CC_UNUSED, [])])"
  by (simp add: categorize_run_defs)

text \<open>
  \<open>test_categorize_deriv_fixed\<close>, its three calls: \<open>v\<close> fixed and \<open>diff_eqn\<close> deactivated;
  \<open>v\<close> an input instead; \<open>dv\<close> fixed, \<open>diff_eqn\<close> active and \<open>dv_disc_eq\<close> deactivated.
\<close>

lemma test_categorize_deriv_fixed_diff_var:
  "categorize_dae_variables_and_constraints
     (test_model\<lparr>fixed_vars := [''v''], deactivated_cons := [''diff_eqn'']\<rparr>)
     [''v'', ''dv''] [''diff_eqn'', ''dv_disc_eq''] [] []
   = Inr ([(VC_DIFFERENTIAL, []), (VC_DERIVATIVE, []), (VC_ALGEBRAIC, [''dv'']),
           (VC_INPUT, []), (VC_DISTURBANCE, []), (VC_FIXED, []), (VC_UNUSED, [''v''])],
          [(CC_DIFFERENTIAL, []), (CC_DISCRETIZATION, []), (CC_ALGEBRAIC, [''dv_disc_eq'']),
           (CC_UNUSED, [''diff_eqn''])])"
  by (simp add: categorize_run_defs)

lemma test_categorize_deriv_fixed_input:
  "categorize_dae_variables_and_constraints
     (test_model\<lparr>deactivated_cons := [''diff_eqn'']\<rparr>)
     [''v'', ''dv''] [''diff_eqn'', ''dv_disc_eq''] [''v''] []
   = Inr ([(VC_DIFFERENTIAL, []), (VC_DERIVATIVE, []), (VC_ALGEBRAIC, [''dv'']),
           (VC_INPUT, [''v'']), (VC_DISTURBANCE, []), (VC_FIXED, []), (VC_UNUSED, [])],
          [(CC_DIFFERENTIAL, []), (CC_DISCRETIZATION, []), (CC_ALGEBRAIC, [''dv_disc_eq'']),
           (CC_UNUSED, [''diff_eqn''])])"
  by (simp add: categorize_run_defs)

lemma test_categorize_deriv_fixed_deriv_var:
  "categorize_dae_variables_and_constraints
     (test_model\<lparr>fixed_vars := [''dv''], deactivated_cons := [''dv_disc_eq'']\<rparr>)
     [''v'', ''dv''] [''diff_eqn'', ''dv_disc_eq''] [] []
   = Inr ([(VC_DIFFERENTIAL, []), (VC_DERIVATIVE, []), (VC_ALGEBRAIC, [''v'']),
           (VC_INPUT, []), (VC_DISTURBANCE, []), (VC_FIXED, []), (VC_UNUSED, [''dv''])],
          [(CC_DIFFERENTIAL, []), (CC_DISCRETIZATION, []), (CC_ALGEBRAIC, [''diff_eqn'']),
           (CC_UNUSED, [''dv_disc_eq''])])"
  by (simp add: categorize_run_defs)

theorem categorize_partition_is_disjoint_cover_witness:
  "(\<exists>!k. \<exists>xs. map_of [(VC_DIFFERENTIAL, [''v'']), (VC_DERIVATIVE, [''dv'']), (VC_ALGEBRAIC, []),
           (VC_INPUT, []), (VC_DISTURBANCE, []), (VC_FIXED, []), (VC_UNUSED, [])] k = Some xs
         \<and> ''dv'' \<in> set xs)
   \<and> (\<Union>(k, xs) \<in> set [(VC_DIFFERENTIAL, [''v'']), (VC_DERIVATIVE, [''dv'']), (VC_ALGEBRAIC, []),
           (VC_INPUT, []), (VC_DISTURBANCE, []), (VC_FIXED, []), (VC_UNUSED, [])]. set xs)
       = set [''v'', ''dv'']"
proof -
  let ?vp = "[(VC_DIFFERENTIAL, [''v'']), (VC_DERIVATIVE, [''dv'']), (VC_ALGEBRAIC, []),
           (VC_INPUT, []), (VC_DISTURBANCE, []), (VC_FIXED, []), (VC_UNUSED, [])]"
  let ?cp = "[(CC_DIFFERENTIAL, [''diff_eqn'']), (CC_DISCRETIZATION, [''dv_disc_eq'']),
           (CC_ALGEBRAIC, []), (CC_UNUSED, [])]"
  have run: "categorize_dae_variables_and_constraints test_model
     [''v'', ''dv''] [''diff_eqn'', ''dv_disc_eq''] [] [] = Inr (?vp, ?cp)"
    by (simp add: categorize_run_defs)
  note t = categorize_partition_is_disjoint_cover [OF run]
  from t have "\<forall>x \<in> set [''v'', ''dv'']. \<exists>!k. \<exists>xs. map_of ?vp k = Some xs \<and> x \<in> set xs"
    by blast
  moreover have "''dv'' \<in> set [''v'', ''dv'']" by simp
  ultimately have 1: "\<exists>!k. \<exists>xs. map_of ?vp k = Some xs \<and> ''dv'' \<in> set xs"
    by blast
  from t have 2: "(\<Union>(k, xs) \<in> set ?vp. set xs) = set [''v'', ''dv'']"
    by blast
  from 1 2 show ?thesis by blast
qed

section \<open>The DAE categorizer: derivative and differential variables\<close>

lemma var_category_DERIVATIVE:
  assumes "var_category m dae_vars dae_cons input_vars disturbance_vars dv = VC_DERIVATIVE"
  shows "\<not> is_fixed m dv
         \<and> (\<exists>s c. state_var_of m dv = Some s \<and> \<not> is_fixed m s
                  \<and> disc_eq_of m dv = Some c \<and> c \<in> set dae_cons)"
  using assms
  by (auto simp: var_category_def disc_eq_discoverable_def split: if_splits option.splits)

lemma var_category_state_of_fixed_derivative:
  assumes "state_var_of m v = None"
    and "v \<notin> set input_vars" and "v \<notin> set disturbance_vars" and "\<not> is_fixed m v"
    and "\<forall>d \<in> set dae_vars. state_var_of m d = Some v \<longrightarrow> d = dv"
    and "is_fixed m dv"
  shows "var_category m dae_vars dae_cons input_vars disturbance_vars v = VC_ALGEBRAIC"
proof -
  have "\<not> list_ex (\<lambda>d. state_var_of m d = Some v
                          \<and> d \<notin> set input_vars \<and> d \<notin> set disturbance_vars
                          \<and> \<not> is_fixed m d \<and> disc_eq_discoverable m dae_cons d) dae_vars"
    using assms(5,6) by (auto simp: list_ex_iff)
  with assms(1-4) show ?thesis by (simp add: var_category_def)
qed

lemma var_category_derivative_of_fixed_state:
  assumes "state_var_of m dv = Some v"
    and "dv \<notin> set input_vars" and "dv \<notin> set disturbance_vars" and "\<not> is_fixed m dv"
    and "is_fixed m v \<or> v \<in> set input_vars"
  shows "var_category m dae_vars dae_cons input_vars disturbance_vars dv = VC_ALGEBRAIC"
  using assms by (auto simp: var_category_def)

text \<open>
  C2. In an accepted call, a variable is under DERIVATIVE only if it is not fixed, its
  differential variable is not fixed, and its discretization equation is among the
  supplied constraints. A supplied differential variable (free, and neither an input
  nor a disturbance) whose derivative variable is fixed is under ALGEBRAIC; and a
  supplied derivative variable (free, and neither an input nor a disturbance) whose
  differential variable is fixed, or is an input, is under ALGEBRAIC. As in the test
  file, this is about one of the two being fixed, "the other" being a free variable.
\<close>

theorem derivative_category_rules:
  assumes "categorize_dae_variables_and_constraints m dae_vars dae_cons input_vars disturbance_vars
             = Inr (var_partition, con_partition)"
  shows "(\<forall>dv xs. map_of var_partition VC_DERIVATIVE = Some xs \<and> dv \<in> set xs \<longrightarrow>
            \<not> is_fixed m dv
            \<and> (\<exists>s c. state_var_of m dv = Some s \<and> \<not> is_fixed m s
                     \<and> disc_eq_of m dv = Some c \<and> c \<in> set dae_cons))
         \<and> (\<forall>v dv. v \<in> set dae_vars \<and> state_var_of m v = None
               \<and> v \<notin> set input_vars \<and> v \<notin> set disturbance_vars \<and> \<not> is_fixed m v
               \<and> state_var_of m dv = Some v
               \<and> (\<forall>d \<in> set dae_vars. state_var_of m d = Some v \<longrightarrow> d = dv)
               \<and> is_fixed m dv \<longrightarrow>
               (\<exists>xs. map_of var_partition VC_ALGEBRAIC = Some xs \<and> v \<in> set xs))
         \<and> (\<forall>v dv. dv \<in> set dae_vars \<and> state_var_of m dv = Some v
               \<and> dv \<notin> set input_vars \<and> dv \<notin> set disturbance_vars \<and> \<not> is_fixed m dv
               \<and> (is_fixed m v \<or> v \<in> set input_vars) \<longrightarrow>
               (\<exists>xs. map_of var_partition VC_ALGEBRAIC = Some xs \<and> dv \<in> set xs))"
proof (intro conjI allI impI)
  note look = var_partition_lookup [OF assms]
  fix dv xs
  assume "map_of var_partition VC_DERIVATIVE = Some xs \<and> dv \<in> set xs"
  then have d: "var_category m dae_vars dae_cons input_vars disturbance_vars dv = VC_DERIVATIVE"
    by (auto simp: look)
  from var_category_DERIVATIVE [OF d]
  show "\<not> is_fixed m dv"
    and "\<exists>s c. state_var_of m dv = Some s \<and> \<not> is_fixed m s
               \<and> disc_eq_of m dv = Some c \<and> c \<in> set dae_cons"
    by blast+
next
  note look = var_partition_lookup [OF assms]
  fix v dv
  assume a: "v \<in> set dae_vars \<and> state_var_of m v = None
               \<and> v \<notin> set input_vars \<and> v \<notin> set disturbance_vars \<and> \<not> is_fixed m v
               \<and> state_var_of m dv = Some v
               \<and> (\<forall>d \<in> set dae_vars. state_var_of m d = Some v \<longrightarrow> d = dv)
               \<and> is_fixed m dv"
  then have "var_category m dae_vars dae_cons input_vars disturbance_vars v = VC_ALGEBRAIC"
    by (intro var_category_state_of_fixed_derivative [of m v input_vars disturbance_vars dae_vars dv])
       blast+
  with a show "\<exists>xs. map_of var_partition VC_ALGEBRAIC = Some xs \<and> v \<in> set xs"
    by (simp add: look)
next
  note look = var_partition_lookup [OF assms]
  fix v dv
  assume a: "dv \<in> set dae_vars \<and> state_var_of m dv = Some v
               \<and> dv \<notin> set input_vars \<and> dv \<notin> set disturbance_vars \<and> \<not> is_fixed m dv
               \<and> (is_fixed m v \<or> v \<in> set input_vars)"
  then have "var_category m dae_vars dae_cons input_vars disturbance_vars dv = VC_ALGEBRAIC"
    by (intro var_category_derivative_of_fixed_state [of m dv v]) blast+
  with a show "\<exists>xs. map_of var_partition VC_ALGEBRAIC = Some xs \<and> dv \<in> set xs"
    by (simp add: look)
qed
theorem derivative_category_rules_witness:
  "(\<not> is_fixed test_model ''dv''
     \<and> (\<exists>s c. state_var_of test_model ''dv'' = Some s \<and> \<not> is_fixed test_model s
              \<and> disc_eq_of test_model ''dv'' = Some c \<and> c \<in> set [''diff_eqn'', ''dv_disc_eq'']))
   \<and> (\<exists>xs. map_of [(VC_DIFFERENTIAL, []), (VC_DERIVATIVE, []), (VC_ALGEBRAIC, [''v'']),
           (VC_INPUT, []), (VC_DISTURBANCE, []), (VC_FIXED, []), (VC_UNUSED, [''dv''])]
           VC_ALGEBRAIC = Some xs \<and> ''v'' \<in> set xs)
   \<and> (\<exists>xs. map_of [(VC_DIFFERENTIAL, []), (VC_DERIVATIVE, []), (VC_ALGEBRAIC, [''dv'']),
           (VC_INPUT, []), (VC_DISTURBANCE, []), (VC_FIXED, []), (VC_UNUSED, [''v''])]
           VC_ALGEBRAIC = Some xs \<and> ''dv'' \<in> set xs)"
proof -
  let ?vars = "[''v'', ''dv'']"
  let ?cons = "[''diff_eqn'', ''dv_disc_eq'']"
  let ?m2 = "test_model\<lparr>fixed_vars := [''dv''], deactivated_cons := [''dv_disc_eq'']\<rparr>"
  let ?m3 = "test_model\<lparr>fixed_vars := [''v''], deactivated_cons := [''diff_eqn'']\<rparr>"
  have "map_of [(VC_DIFFERENTIAL, [''v'']), (VC_DERIVATIVE, [''dv'']), (VC_ALGEBRAIC, []),
           (VC_INPUT, []), (VC_DISTURBANCE, []), (VC_FIXED, []), (VC_UNUSED, [])] VC_DERIVATIVE
          = Some [''dv''] \<and> ''dv'' \<in> set [''dv'']"
    by simp
  with derivative_category_rules [OF test_categorize_deriv]
  have 1: "\<not> is_fixed test_model ''dv''
     \<and> (\<exists>s c. state_var_of test_model ''dv'' = Some s \<and> \<not> is_fixed test_model s
              \<and> disc_eq_of test_model ''dv'' = Some c \<and> c \<in> set ?cons)"
    by blast
  have "''v'' \<in> set ?vars \<and> state_var_of ?m2 ''v'' = None
          \<and> ''v'' \<notin> set [] \<and> ''v'' \<notin> set [] \<and> \<not> is_fixed ?m2 ''v''
          \<and> state_var_of ?m2 ''dv'' = Some ''v''
          \<and> (\<forall>d \<in> set ?vars. state_var_of ?m2 d = Some ''v'' \<longrightarrow> d = ''dv'')
          \<and> is_fixed ?m2 ''dv''"
    by (simp add: test_model_def is_fixed_def)
  with derivative_category_rules [OF test_categorize_deriv_fixed_deriv_var]
  have 2: "\<exists>xs. map_of [(VC_DIFFERENTIAL, []), (VC_DERIVATIVE, []), (VC_ALGEBRAIC, [''v'']),
           (VC_INPUT, []), (VC_DISTURBANCE, []), (VC_FIXED, []), (VC_UNUSED, [''dv''])]
           VC_ALGEBRAIC = Some xs \<and> ''v'' \<in> set xs"
    by blast
  have "''dv'' \<in> set ?vars \<and> state_var_of ?m3 ''dv'' = Some ''v''
          \<and> ''dv'' \<notin> set [] \<and> ''dv'' \<notin> set [] \<and> \<not> is_fixed ?m3 ''dv''
          \<and> (is_fixed ?m3 ''v'' \<or> ''v'' \<in> set [])"
    by (simp add: test_model_def is_fixed_def)
  with derivative_category_rules [OF test_categorize_deriv_fixed_diff_var]
  have 3: "\<exists>xs. map_of [(VC_DIFFERENTIAL, []), (VC_DERIVATIVE, []), (VC_ALGEBRAIC, [''dv'']),
           (VC_INPUT, []), (VC_DISTURBANCE, []), (VC_FIXED, []), (VC_UNUSED, [''v''])]
           VC_ALGEBRAIC = Some xs \<and> ''dv'' \<in> set xs"
    by blast
  from 1 2 3 show ?thesis by blast
qed

section \<open>The DAE categorizer: a function of the model's state\<close>




end
